theory Spec2Isabelle
  imports Main "HOL-Library.Sublist"
begin

section \<open>The Hyperliquid agent deployer (server.js)\<close>

text \<open>
  The deployer talks to three outside parties: the AWS log platform, the AWS container
  platform (ECS) and an AI code generator. Each awaited call either resolves with a value
  or rejects with an error object. The model makes both sides explicit:
  \<^item> what the program does to the outside is a trace: the list of calls it issued, in
    the order it issued them, each with the request it sent;
  \<^item> what the outside answers is an input: a record holding the outcome of every call
    of one run. A run issues every kind of call at most once, apart from CreateService,
    whose outcome is indexed by the number of CreateService calls issued before it.
  An answer that resolves is well formed: it carries the fields the code reads from it.
  Strings are byte lists (the UTF-8 encoding of the JavaScript string).
  The \<open>console.log\<close> lines write progress text only and steer nothing; they are left
  out. \<open>console.warn\<close>, the way a tolerated failure is reported, is an entry of the trace.
\<close>

subsection \<open>Error objects and strings\<close>

text \<open>
  A rejected call carries an error object, of which the code reads \<open>name\<close> and
  \<open>message\<close>. The code guards \<open>err.message?.includes\<close>, so \<open>message\<close> may be
  absent.
\<close>

datatype js_error = JsError (err_name: string) (err_message: "string option")

text \<open>\<open>new Error(m)\<close>\<close>

definition Error :: "string \<Rightarrow> js_error" where
  "Error m = JsError ''Error'' (Some m)"

text \<open>A value inside a template literal: an absent one prints as \<open>undefined\<close>.\<close>

definition template :: "string option \<Rightarrow> string" where
  "template v = (case v of None \<Rightarrow> ''undefined'' | Some s \<Rightarrow> s)"

text \<open>\<open>String.prototype.includes\<close>: does \<open>sub\<close> occur in \<open>s\<close> as a contiguous run.\<close>

fun str_includes :: "string \<Rightarrow> string \<Rightarrow> bool" where
  "str_includes [] sub = (sub = [])"
| "str_includes (c # cs) sub = (prefix sub (c # cs) \<or> str_includes cs sub)"

text \<open>
  \<open>encodeURIComponent\<close>: the unreserved characters stay, every other byte of the
  UTF-8 encoding becomes \<open>%XX\<close> in upper-case hexadecimal.
\<close>

definition uriUnreserved :: "char \<Rightarrow> bool" where
  "uriUnreserved c =
     (c \<in> set (''ABCDEFGHIJKLMNOPQRSTUVWXYZabcdefghijklmnopqrstuvwxyz0123456789''
               @ [CHR ''-'', CHR ''_'', CHR ''.'', CHR ''!'', CHR ''~'', CHR ''*'',
                  CHR 0x27, CHR ''('', CHR '')'']))"

definition hexDigit :: "nat \<Rightarrow> char" where
  "hexDigit n = ''0123456789ABCDEF'' ! (n mod 16)"

definition encodeByte :: "char \<Rightarrow> string" where
  "encodeByte c =
     (if uriUnreserved c then [c]
      else [CHR ''%'', hexDigit ((of_char c :: nat) div 16), hexDigit (of_char c)])"

definition encodeURIComponent :: "string \<Rightarrow> string" where
  "encodeURIComponent s = concat (map encodeByte s)"

subsection \<open>Process configuration (lines 39--49)\<close>

text \<open>
  The module constants read from the environment at start-up. A variable that may be
  unset is an option; the two id lists are what \<open>split(',').filter(Boolean)\<close> left.
\<close>

record config =
  AWS_REGION :: string
  ECS_CLUSTER :: string
  ECR_REPOSITORY :: string
  ECR_REGISTRY :: string
  SUBNET_IDS :: "string list"
  SECURITY_GROUP_IDS :: "string list"
  ASSIGN_PUBLIC_IP :: bool
  ECS_EXECUTION_ROLE_ARN :: "string option"
  ECS_TASK_ROLE_ARN :: "string option"
  SUPABASE_URL :: "string option"
  SUPABASE_ANON_KEY :: "string option"
  AI_ENGINE_URL :: string

text \<open>\<open>!v\<close> for a value that is a string or undefined.\<close>

definition falsy :: "string option \<Rightarrow> bool" where
  "falsy v = (case v of None \<Rightarrow> True | Some s \<Rightarrow> s = [])"

subsection \<open>Requests sent to the platforms\<close>

record deploymentConfiguration =
  maximumPercent :: nat
  minimumHealthyPercent :: nat

record awsvpcConfiguration =
  subnets :: "string list"
  securityGroups :: "string list"
  assignPublicIp :: string

record logConfiguration =
  logDriver :: string
  logOptions :: "(string \<times> string) list"

record healthCheck =
  hc_command :: "string list"
  hc_interval :: nat
  hc_timeout :: nat
  hc_retries :: nat
  hc_startPeriod :: nat

record containerDefinition =
  cd_name :: string
  cd_image :: string
  cd_essential :: bool
  cd_environment :: "(string \<times> string option) list"
  cd_command :: "string list"
  cd_logConfiguration :: logConfiguration
  cd_healthCheck :: healthCheck

record registerTaskDefinitionInput =
  family :: string
  requiresCompatibilities :: "string list"
  networkMode :: string
  cpu :: string
  memory :: string
  executionRoleArn :: "string option"
  taskRoleArn :: "string option"
  containerDefinitions :: "containerDefinition list"

text \<open>
  \<open>cs_networkConfiguration\<close> holds \<open>networkConfiguration.awsvpcConfiguration\<close>, the
  only field of that object.
\<close>

record createServiceInput =
  cs_cluster :: string
  cs_serviceName :: string
  cs_taskDefinition :: string
  cs_desiredCount :: nat
  cs_launchType :: string
  cs_networkConfiguration :: awsvpcConfiguration
  cs_deploymentConfiguration :: deploymentConfiguration

record updateServiceInput =
  us_cluster :: string
  us_service :: string
  us_taskDefinition :: string
  us_forceNewDeployment :: bool
  us_desiredCount :: nat
  us_deploymentConfiguration :: deploymentConfiguration

record describeServicesInput =
  ds_cluster :: string
  ds_services :: "string list"

record deleteServiceInput =
  dl_cluster :: string
  dl_service :: string
  dl_force :: bool

text \<open>One entry of the trace: a command sent, a timer awaited, or a warning printed.\<close>

datatype call =
    CreateLogGroup string
  | PutRetentionPolicy string nat
  | RegisterTaskDefinition registerTaskDefinitionInput
  | DescribeServices describeServicesInput
  | CreateService createServiceInput
  | UpdateService updateServiceInput
  | DeleteService deleteServiceInput
  | SetTimeout nat
  | ConsoleWarn string

type_synonym trace = "call list"

subsection \<open>Answers of the platforms\<close>

text \<open>A described service; the code reads its \<open>status\<close> only, for the warning text.\<close>

record ecsService =
  status :: "string option"

text \<open>
  The outcome of each call of one run: \<open>None\<close> or \<open>Inr\<close> when the call resolves,
  the error object when it rejects. \<open>describeServices\<close> resolves with the field
  \<open>services\<close> of the answer, which may be absent. \<open>createService n\<close> is the outcome of
  the CreateService call issued after \<open>n\<close> earlier ones.
\<close>

record platform =
  createLogGroup :: "js_error option"
  putRetentionPolicy :: "js_error option"
  registerTaskDefinition :: "js_error + string"
  describeServices :: "js_error + ecsService list option"
  updateService :: "js_error + string"
  deleteService :: "js_error option"
  createService :: "nat \<Rightarrow> js_error + string"

subsection \<open>ensureLogGroup (lines 102--118)\<close>

definition ensureLogGroup :: "platform \<Rightarrow> string \<Rightarrow> trace \<Rightarrow> (js_error + string) \<times> trace" where
  "ensureLogGroup P agentId t =
     (let logGroupName = ''/ecs/hyperliquid-agents/'' @ agentId;
          t1 = t @ [CreateLogGroup logGroupName];
          rethrown = (case createLogGroup P of
                        None \<Rightarrow> None
                      | Some err \<Rightarrow>
                          if err_name err \<noteq> ''ResourceAlreadyExistsException''
                          then Some err else None)
      in case rethrown of
           Some err \<Rightarrow> (Inl err, t1)
         | None \<Rightarrow>
             (let t2 = t1 @ [PutRetentionPolicy logGroupName 30];
                  t3 = (case putRetentionPolicy P of
                          None \<Rightarrow> t2
                        | Some err \<Rightarrow>
                            t2 @ [ConsoleWarn (''Retention policy failed: ''
                                               @ template (err_message err))])
              in (Inr logGroupName, t3)))"

subsection \<open>deployToFargate (lines 120--283)\<close>

record credentials =
  apiKey :: string
  hyperliquidAddress :: string

text \<open>The object returned at lines 277--282.\<close>

record deployment =
  dep_serviceArn :: string
  dep_taskDefArn :: string
  dep_logGroupName :: string
  dep_logUrl :: string

text \<open>The command object of lines 151--183.\<close>

definition registerTaskDefinitionCommand ::
  "config \<Rightarrow> string \<Rightarrow> credentials \<Rightarrow> string \<Rightarrow> registerTaskDefinitionInput" where
  \<open>registerTaskDefinitionCommand cfg agentId creds logGroupName =
     (let imageUri = ECR_REGISTRY cfg @ ''/'' @ ECR_REPOSITORY cfg @ '':latest'';
          environment =
            [(''AGENT_ID'', Some agentId),
             (''HYPERLIQUID_PRIVATE_KEY'', Some (apiKey creds)),
             (''HYPERLIQUID_ADDRESS'', Some (hyperliquidAddress creds)),
             (''SUPABASE_URL'', SUPABASE_URL cfg),
             (''SUPABASE_ANON_KEY'', SUPABASE_ANON_KEY cfg),
             (''AWS_REGION'', Some (AWS_REGION cfg)),
             (''LOG_GROUP_NAME'', Some logGroupName)];
          taskFamily = ''hyperliquid-agent-'' @ agentId
      in \<lparr>family = taskFamily,
          requiresCompatibilities = [''FARGATE''],
          networkMode = ''awsvpc'',
          cpu = ''512'',
          memory = ''1024'',
          executionRoleArn = ECS_EXECUTION_ROLE_ARN cfg,
          taskRoleArn = ECS_TASK_ROLE_ARN cfg,
          containerDefinitions =
            [\<lparr>cd_name = ''agent'',
              cd_image = imageUri,
              cd_essential = True,
              cd_environment = environment,
              cd_command = [''sh'', ''-c'', ''node agentRunner.js $AGENT_ID''],
              cd_logConfiguration =
                \<lparr>logDriver = ''awslogs'',
                 logOptions =
                   [(''awslogs-group'', logGroupName),
                    (''awslogs-region'', AWS_REGION cfg),
                    (''awslogs-stream-prefix'', ''agent''),
                    (''awslogs-create-group'', ''true'')]\<rparr>,
              cd_healthCheck =
                \<lparr>hc_command = [''CMD-SHELL'', ''pgrep -f "node agentRunner.js" || exit 1''],
                 hc_interval = 30,
                 hc_timeout = 5,
                 hc_retries = 3,
                 hc_startPeriod = 120\<rparr>\<rparr>]\<rparr>)\<close>

text \<open>The command object of lines 191--208.\<close>

definition createServiceCommand :: "config \<Rightarrow> string \<Rightarrow> string \<Rightarrow> createServiceInput" where
  "createServiceCommand cfg serviceName taskDefArn =
     \<lparr>cs_cluster = ECS_CLUSTER cfg,
      cs_serviceName = serviceName,
      cs_taskDefinition = taskDefArn,
      cs_desiredCount = 1,
      cs_launchType = ''FARGATE'',
      cs_networkConfiguration =
        \<lparr>subnets = SUBNET_IDS cfg,
         securityGroups = SECURITY_GROUP_IDS cfg,
         assignPublicIp = (if ASSIGN_PUBLIC_IP cfg then ''ENABLED'' else ''DISABLED'')\<rparr>,
      cs_deploymentConfiguration = \<lparr>maximumPercent = 200, minimumHealthyPercent = 100\<rparr>\<rparr>"

text \<open>The command object of lines 225--235.\<close>

definition updateServiceCommand :: "config \<Rightarrow> string \<Rightarrow> string \<Rightarrow> updateServiceInput" where
  "updateServiceCommand cfg serviceName taskDefArn =
     \<lparr>us_cluster = ECS_CLUSTER cfg,
      us_service = serviceName,
      us_taskDefinition = taskDefArn,
      us_forceNewDeployment = True,
      us_desiredCount = 1,
      us_deploymentConfiguration = \<lparr>maximumPercent = 200, minimumHealthyPercent = 100\<rparr>\<rparr>"

fun isCreateService :: "call \<Rightarrow> bool" where
  "isCreateService (CreateService r) = True"
| "isCreateService c = False"

text \<open>
  The inner helper of lines 190--210. The platform's answer is the one scripted for the
  number of CreateService calls already in the trace.
\<close>

definition createNewService ::
  "config \<Rightarrow> platform \<Rightarrow> string \<Rightarrow> string \<Rightarrow> trace \<Rightarrow> (js_error + string) \<times> trace" where
  "createNewService cfg P serviceName taskDefArn t =
     (createService P (length (filter isCreateService t)),
      t @ [CreateService (createServiceCommand cfg serviceName taskDefArn)])"

text \<open>
  The body of the \<open>try\<close> of lines 214--262. \<open>Inl\<close> is whatever is thrown inside
  it, which the \<open>catch\<close> of line 263 receives: a rejected describe, a rejected create of
  the \<open>else\<close> branch, and the error built at line 255.
\<close>

definition deployToFargate_try ::
  "config \<Rightarrow> platform \<Rightarrow> string \<Rightarrow> string \<Rightarrow> trace \<Rightarrow> (js_error + string) \<times> trace" where
  "deployToFargate_try cfg P serviceName taskDefArn t =
     (let t1 = t @ [DescribeServices \<lparr>ds_cluster = ECS_CLUSTER cfg, ds_services = [serviceName]\<rparr>]
      in case describeServices P of
           Inl err \<Rightarrow> (Inl err, t1)
         | Inr desc_services \<Rightarrow>
             if (case desc_services of None \<Rightarrow> False | Some services \<Rightarrow> 0 < length services)
             then
               (let existingService = the desc_services ! 0;
                    t2 = t1 @ [UpdateService (updateServiceCommand cfg serviceName taskDefArn)]
                in case updateService P of
                     Inr serviceArn \<Rightarrow> (Inr serviceArn, t2)
                   | Inl updateErr \<Rightarrow>
                       (let t3 = t2 @ [ConsoleWarn
                                    (''Failed to update service (''
                                     @ template (status existingService)
                                     @ ''), deleting and recreating: ''
                                     @ template (err_message updateErr))];
                            t4 = t3 @ [DeleteService \<lparr>dl_cluster = ECS_CLUSTER cfg,
                                                     dl_service = serviceName,
                                                     dl_force = True\<rparr>]
                        in case deleteService P of
                             Some deleteErr \<Rightarrow>
                               (Inl (Error (''Failed to update or delete service: ''
                                            @ template (err_message updateErr)
                                            @ ''. Delete attempt: ''
                                            @ template (err_message deleteErr))), t4)
                           | None \<Rightarrow>
                               (let t5 = t4 @ [SetTimeout 2000]
                                in case createNewService cfg P serviceName taskDefArn t5 of
                                     (Inr serviceArn, t6) \<Rightarrow> (Inr serviceArn, t6)
                                   | (Inl deleteErr, t6) \<Rightarrow>
                                       (Inl (Error (''Failed to update or delete service: ''
                                                    @ template (err_message updateErr)
                                                    @ ''. Delete attempt: ''
                                                    @ template (err_message deleteErr))), t6))))
             else createNewService cfg P serviceName taskDefArn t1)"

text \<open>The test of line 265.\<close>

definition isNotFound :: "js_error \<Rightarrow> bool" where
  "isNotFound err =
     (err_name err = ''ServiceNotFoundException''
      \<or> (case err_message err of None \<Rightarrow> False | Some m \<Rightarrow> str_includes m ''not found''))"

text \<open>The whole \<open>try\<close>/\<open>catch\<close> of lines 213--275.\<close>

definition deployToFargate_service ::
  "config \<Rightarrow> platform \<Rightarrow> string \<Rightarrow> string \<Rightarrow> trace \<Rightarrow> (js_error + string) \<times> trace" where
  "deployToFargate_service cfg P serviceName taskDefArn t =
     (case deployToFargate_try cfg P serviceName taskDefArn t of
        (Inr serviceArn, t') \<Rightarrow> (Inr serviceArn, t')
      | (Inl err, t') \<Rightarrow>
          if isNotFound err
          then (case createNewService cfg P serviceName taskDefArn t' of
                  (Inr serviceArn, t'') \<Rightarrow> (Inr serviceArn, t'')
                | (Inl createErr, t'') \<Rightarrow>
                    (Inl (Error (''Failed to create service: ''
                                 @ template (err_message createErr))), t''))
          else (Inl (Error (''Failed to check service status: ''
                            @ template (err_message err))), t'))"

definition deployToFargate ::
  "config \<Rightarrow> platform \<Rightarrow> string \<Rightarrow> credentials \<Rightarrow> (js_error + deployment) \<times> trace" where
  "deployToFargate cfg P agentId creds =
     (if length (SUBNET_IDS cfg) = 0
      then (Inl (Error ''SUBNET_IDS environment variable is required''), [])
      else if length (SECURITY_GROUP_IDS cfg) = 0
      then (Inl (Error ''SECURITY_GROUP_IDS environment variable is required''), [])
      else if falsy (ECS_EXECUTION_ROLE_ARN cfg)
      then (Inl (Error ''ECS_EXECUTION_ROLE_ARN environment variable is required''), [])
      else
        (case ensureLogGroup P agentId [] of
           (Inl err, t1) \<Rightarrow> (Inl err, t1)
         | (Inr logGroupName, t1) \<Rightarrow>
             (let t2 = t1 @ [RegisterTaskDefinition
                               (registerTaskDefinitionCommand cfg agentId creds logGroupName)]
              in case registerTaskDefinition P of
                   Inl err \<Rightarrow> (Inl err, t2)
                 | Inr taskDefArn \<Rightarrow>
                     (let serviceName = ''agent-svc-'' @ agentId
                      in case deployToFargate_service cfg P serviceName taskDefArn t2 of
                           (Inl err, t3) \<Rightarrow> (Inl err, t3)
                         | (Inr serviceArn, t3) \<Rightarrow>
                             (Inr \<lparr>dep_serviceArn = serviceArn,
                                   dep_taskDefArn = taskDefArn,
                                   dep_logGroupName = logGroupName,
                                   dep_logUrl =
                                     ''https://'' @ AWS_REGION cfg
                                     @ ''.console.aws.amazon.com/cloudwatch/home?region=''
                                     @ AWS_REGION cfg
                                     @ ''#logsV2:log-groups/log-group/''
                                     @ encodeURIComponent logGroupName\<rparr>, t3)))))"

subsection \<open>generateAgentCode (lines 58--72) and its call site (lines 311--329)\<close>

text \<open>The \<open>data\<close> of the AI engine's answer, as far as the code reads it.\<close>

record aiResponseData =
  success :: bool
  error :: "string option"
  ai_initialization_code :: "string option"
  ai_trigger_code :: "string option"
  ai_execution_code :: "string option"

record agentCode =
  initialization_code :: "string option"
  trigger_code :: "string option"
  execution_code :: "string option"

text \<open>\<open>axios.post(url, {strategy_description})\<close>\<close>

datatype httpCall = AxiosPost string string

text \<open>
  \<open>post\<close> is the outcome of the one HTTP call. The parameter \<open>useTestCode\<close> is
  \<open>None\<close> when the caller passes nothing (the default \<open>false\<close> applies); line 60
  then assigns \<open>false\<close> to it.
\<close>

definition generateAgentCode ::
  "config \<Rightarrow> (js_error + aiResponseData) \<Rightarrow> string \<Rightarrow> bool option
     \<Rightarrow> (js_error + agentCode) \<times> httpCall list" where
  "generateAgentCode cfg post strategyDescription useTestCodeArg =
     (let useTestCode = (case useTestCodeArg of None \<Rightarrow> False | Some b \<Rightarrow> b);
          useTestCode = False;
          sent = [AxiosPost (AI_ENGINE_URL cfg @ ''/generate'') strategyDescription]
      in case post of
           Inl err \<Rightarrow> (Inl err, sent)
         | Inr data \<Rightarrow>
             if \<not> success data
             then (Inl (Error (if falsy (error data) then ''Code generation failed''
                               else the (error data))), sent)
             else (Inr \<lparr>initialization_code = ai_initialization_code data,
                        trigger_code = ai_trigger_code data,
                        execution_code = ai_execution_code data\<rparr>, sent))"

text \<open>
  The body of a POST /deploy request, as far as lines 312--329 read it: an absent or
  empty field is falsy.
\<close>

record deployBody =
  userId :: "string option"
  agentName :: "string option"
  body_strategyDescription :: "string option"
  body_hyperliquidAddress :: "string option"
  body_apiKey :: "string option"
  body_useTestCode :: "bool option"

text \<open>
  Lines 312--329 of the handler: the required fields are checked (\<open>None\<close>: the
  request is answered with status 400 and nothing is generated), then the code is
  generated.
\<close>

definition deploy_generate ::
  "config \<Rightarrow> (js_error + aiResponseData) \<Rightarrow> deployBody
     \<Rightarrow> ((js_error + agentCode) \<times> httpCall list) option" where
  "deploy_generate cfg post body =
     (let useTestCode = (case body_useTestCode body of None \<Rightarrow> False | Some b \<Rightarrow> b)
      in if falsy (userId body) \<or> falsy (agentName body)
            \<or> falsy (body_strategyDescription body)
            \<or> falsy (body_hyperliquidAddress body) \<or> falsy (body_apiKey body)
         then None
         else Some (generateAgentCode cfg post (the (body_strategyDescription body))
                      (Some useTestCode)))"

subsection \<open>Reading a trace\<close>

fun registered :: "trace \<Rightarrow> registerTaskDefinitionInput list" where
  "registered [] = []"
| "registered (RegisterTaskDefinition r # t) = r # registered t"
| "registered (c # t) = registered t"

fun isDeleteService :: "call \<Rightarrow> bool" where
  "isDeleteService (DeleteService r) = True"
| "isDeleteService c = False"

text \<open>The calls made before the service is looked at: log group, warning, registration.\<close>

fun isSetup :: "call \<Rightarrow> bool" where
  "isSetup (CreateLogGroup n) = True"
| "isSetup (PutRetentionPolicy n k) = True"
| "isSetup (ConsoleWarn m) = True"
| "isSetup (RegisterTaskDefinition r) = True"
| "isSetup c = False"

subsection \<open>Sample inputs\<close>

definition cfg0 :: config where
  "cfg0 =
     \<lparr>AWS_REGION = ''us-east-1'',
      ECS_CLUSTER = ''hyperliquid-agents'',
      ECR_REPOSITORY = ''hyperliquid-agent'',
      ECR_REGISTRY = ''123456789012.dkr.ecr.us-east-1.amazonaws.com'',
      SUBNET_IDS = [''s-1''],
      SECURITY_GROUP_IDS = [''g-1''],
      ASSIGN_PUBLIC_IP = False,
      ECS_EXECUTION_ROLE_ARN = Some ''arn:aws:iam::123456789012:role/ecsTaskExecutionRole'',
      ECS_TASK_ROLE_ARN = None,
      SUPABASE_URL = Some ''https://db.example'',
      SUPABASE_ANON_KEY = Some ''anon'',
      AI_ENGINE_URL = ''http://localhost:8000''\<rparr>"

definition creds0 :: credentials where
  "creds0 = \<lparr>apiKey = ''k'', hyperliquidAddress = ''0xabc''\<rparr>"

text \<open>A platform on which every call resolves and no service exists yet.\<close>

definition fresh :: platform where
  "fresh =
     \<lparr>createLogGroup = None,
      putRetentionPolicy = None,
      registerTaskDefinition = Inr ''td:1'',
      describeServices = Inr (Some []),
      updateService = Inr ''svc:1'',
      deleteService = None,
      createService = (\<lambda>n. Inr ''svc:1'')\<rparr>"

text \<open>A service exists but is inactive: the platform rejects its update.\<close>

definition inactive :: platform where
  "inactive =
     fresh\<lparr>describeServices := Inr (Some [\<lparr>status = Some ''INACTIVE''\<rparr>]),
           updateService :=
             Inl (JsError ''ServiceNotActiveException'' (Some ''Service was not ACTIVE.''))\<rparr>"

text \<open>The same, and the delete is rejected too, as is every create.\<close>

definition deleteRejected :: platform where
  "deleteRejected =
     inactive\<lparr>deleteService :=
                Some (JsError ''ServiceNotFoundException'' (Some ''Service not found.'')),
              createService :=
                (\<lambda>n. Inl (JsError ''AccessDeniedException'' (Some ''Access denied'')))\<rparr>"

text \<open>The update is rejected, the delete resolves, every create is rejected.\<close>

definition recreateRejected :: platform where
  "recreateRejected =
     inactive\<lparr>createService :=
                (\<lambda>n. Inl (JsError ''InvalidParameterException''
                             (Some ''Security group g-1 not found.'')))\<rparr>"

text \<open>
  No service exists, the first create is rejected with a text that contains
  \<open>not found\<close>, and a later create resolves.
\<close>

definition firstCreateRejected :: platform where
  "firstCreateRejected =
     fresh\<lparr>createService :=
             (\<lambda>n. if n = 0
                  then Inl (JsError ''ClusterNotFoundException'' (Some ''Cluster not found.''))
                  else Inr ''svc:2'')\<rparr>"

text \<open>No service exists and every create is rejected.\<close>

definition createDenied :: platform where
  "createDenied =
     fresh\<lparr>createService :=
             (\<lambda>n. Inl (JsError ''AccessDeniedException'' (Some ''Access denied'')))\<rparr>"

definition aiAnswer0 :: aiResponseData where
  "aiAnswer0 =
     \<lparr>success = True, error = None,
      ai_initialization_code = Some ''init()'',
      ai_trigger_code = Some ''trigger()'',
      ai_execution_code = Some ''execute()''\<rparr>"

definition body0 :: deployBody where
  "body0 =
     \<lparr>userId = Some ''u1'', agentName = Some ''scalper'',
      body_strategyDescription = Some ''buy low, sell high'',
      body_hyperliquidAddress = Some ''0xabc'', body_apiKey = Some ''k'',
      body_useTestCode = None\<rparr>"

section \<open>Properties\<close>

subsection \<open>Helper facts\<close>

lemma str_includes_sublist: "str_includes s sub \<longleftrightarrow> sublist sub s"
  by (induction s) (auto simp: sublist_Cons_right)

lemma sublist_middle: "tr = ps @ xs @ ss \<Longrightarrow> sublist xs tr"
  by simp

lemmas deploy_defs = deployToFargate_def deployToFargate_service_def deployToFargate_try_def
  createNewService_def ensureLogGroup_def Let_def

lemma isSetup_not_delete: "isSetup c \<Longrightarrow> \<not> isDeleteService c"
  by (cases c) simp_all

lemma isCreate_not_delete: "isCreateService c \<Longrightarrow> \<not> isDeleteService c"
  by (cases c) simp_all

lemma set_registered: "set (registered t) = {r. RegisterTaskDefinition r \<in> set t}"
  by (induction t rule: registered.induct) auto

lemma ensureLogGroup_platform_describe [simp]:
  "ensureLogGroup (P\<lparr>describeServices := d\<rparr>) agentId t = ensureLogGroup P agentId t"
  by (simp add: ensureLogGroup_def Let_def split: option.splits)

lemma ensureLogGroup_no_create:
  "filter isCreateService (snd (ensureLogGroup P agentId t)) = filter isCreateService t"
  by (simp add: ensureLogGroup_def Let_def split: option.splits)

lemma ensureLogGroup_setup: "\<forall>c \<in> set (snd (ensureLogGroup P agentId [])). isSetup c"
  by (simp add: ensureLogGroup_def Let_def split: option.splits)

text \<open>
  A deployment either stops before the service is looked at, having made set-up calls
  only, or its trace is that of the service step started after such calls.
\<close>

lemma deployToFargate_reach:
  "(\<forall>c \<in> set (snd (deployToFargate cfg P agentId creds)). isSetup c)
   \<or> (\<exists>pre td. (\<forall>c \<in> set pre. isSetup c)
         \<and> snd (deployToFargate cfg P agentId creds)
             = snd (deployToFargate_service cfg P (''agent-svc-'' @ agentId) td pre))"
proof (cases "length (SUBNET_IDS cfg) = 0 \<or> length (SECURITY_GROUP_IDS cfg) = 0
              \<or> falsy (ECS_EXECUTION_ROLE_ARN cfg)")
  case True
  then show ?thesis by (auto simp: deployToFargate_def)
next
  case False
  obtain r t1 where e: "ensureLogGroup P agentId [] = (r, t1)"
    by (cases "ensureLogGroup P agentId []")
  have s1: "\<forall>c \<in> set t1. isSetup c"
    using ensureLogGroup_setup [of P agentId] e by simp
  show ?thesis
  proof (cases r)
    case (Inl err)
    then show ?thesis using False e s1 by (simp add: deployToFargate_def)
  next
    case (Inr lg)
    show ?thesis
    proof (cases "registerTaskDefinition P")
      case (Inl err)
      then show ?thesis using False e s1 Inr by (simp add: deployToFargate_def Let_def)
    next
      case (Inr td)
      let ?pre = "t1 @ [RegisterTaskDefinition (registerTaskDefinitionCommand cfg agentId creds lg)]"
      have "\<forall>c \<in> set ?pre. isSetup c" using s1 by simp
      moreover have "snd (deployToFargate cfg P agentId creds)
             = snd (deployToFargate_service cfg P (''agent-svc-'' @ agentId) td ?pre)"
        using False e \<open>r = Inr lg\<close> Inr
        by (simp add: deployToFargate_def Let_def split: prod.splits sum.splits)
      ultimately show ?thesis by blast
    qed
  qed
qed

text \<open>The \<open>catch\<close> of line 263 adds nothing to the trace but create calls.\<close>

lemma service_extends_try:
  "\<exists>more. snd (deployToFargate_service cfg P sn td t)
            = snd (deployToFargate_try cfg P sn td t) @ more
         \<and> (\<forall>c \<in> set more. isCreateService c)"
  by (auto simp: deployToFargate_service_def createNewService_def split: prod.splits sum.splits)

text \<open>What the \<open>try\<close> block does when the describe call has found a service.\<close>

lemma try_found:
  assumes "describeServices P = Inr (Some (s # ss))"
  shows "(\<exists>arn. updateService P = Inr arn
            \<and> snd (deployToFargate_try cfg P sn td t)
               = t @ [DescribeServices \<lparr>ds_cluster = ECS_CLUSTER cfg, ds_services = [sn]\<rparr>,
                      UpdateService (updateServiceCommand cfg sn td)])
       \<or> (\<exists>e w post. updateService P = Inl e
            \<and> snd (deployToFargate_try cfg P sn td t)
               = t @ [DescribeServices \<lparr>ds_cluster = ECS_CLUSTER cfg, ds_services = [sn]\<rparr>,
                      UpdateService (updateServiceCommand cfg sn td),
                      ConsoleWarn w,
                      DeleteService \<lparr>dl_cluster = ECS_CLUSTER cfg, dl_service = sn, dl_force = True\<rparr>]
                    @ post
            \<and> (\<forall>c \<in> set post. \<not> isDeleteService c))"
  using assms
  by (auto simp: deployToFargate_try_def createNewService_def Let_def
           split: option.splits sum.splits prod.splits)

lemma try_not_found:
  assumes "\<not> (\<exists>s ss. describeServices P = Inr (Some (s # ss)))"
  shows "\<forall>c \<in> set (snd (deployToFargate_try cfg P sn td t)). c \<in> set t \<or> \<not> isDeleteService c"
  using assms
  by (auto simp: deployToFargate_try_def createNewService_def Let_def neq_Nil_conv
           split: option.splits sum.splits prod.splits)

text \<open>Every call a deployment can make, with the request it carries.\<close>

lemma deployToFargate_calls:
  assumes "c \<in> set (snd (deployToFargate cfg P agentId creds))"
  shows "c = CreateLogGroup (''/ecs/hyperliquid-agents/'' @ agentId)
       \<or> c = PutRetentionPolicy (''/ecs/hyperliquid-agents/'' @ agentId) 30
       \<or> (\<exists>m. c = ConsoleWarn m)
       \<or> c = RegisterTaskDefinition
               (registerTaskDefinitionCommand cfg agentId creds (''/ecs/hyperliquid-agents/'' @ agentId))
       \<or> c = DescribeServices \<lparr>ds_cluster = ECS_CLUSTER cfg, ds_services = [''agent-svc-'' @ agentId]\<rparr>
       \<or> (\<exists>td. registerTaskDefinition P = Inr td
               \<and> (c = UpdateService (updateServiceCommand cfg (''agent-svc-'' @ agentId) td)
                  \<or> c = CreateService (createServiceCommand cfg (''agent-svc-'' @ agentId) td)))
       \<or> c = DeleteService \<lparr>dl_cluster = ECS_CLUSTER cfg, dl_service = ''agent-svc-'' @ agentId, dl_force = True\<rparr>
       \<or> c = SetTimeout 2000"
  using assms
  by (auto simp: deploy_defs split: if_splits option.splits sum.splits prod.splits)

lemma deployToFargate_result:
  assumes "fst (deployToFargate cfg P agentId creds) = Inr res"
  shows "dep_logGroupName res = ''/ecs/hyperliquid-agents/'' @ agentId
       \<and> dep_logUrl res = ''https://'' @ AWS_REGION cfg
            @ ''.console.aws.amazon.com/cloudwatch/home?region='' @ AWS_REGION cfg
            @ ''#logsV2:log-groups/log-group/''
            @ encodeURIComponent (''/ecs/hyperliquid-agents/'' @ agentId)"
  using assms
  by (auto simp: deployToFargate_def ensureLogGroup_def Let_def
           split: if_splits option.splits sum.splits prod.splits)

text \<open>Two sample runs: a first deployment, and one onto an inactive service.\<close>

lemma fresh_run:
  "deployToFargate cfg0 fresh ''a1'' creds0
   = (Inr \<lparr>dep_serviceArn = ''svc:1'',
           dep_taskDefArn = ''td:1'',
           dep_logGroupName = ''/ecs/hyperliquid-agents/a1'',
           dep_logUrl = ''https://us-east-1.console.aws.amazon.com/cloudwatch/home?region=us-east-1#logsV2:log-groups/log-group/%2Fecs%2Fhyperliquid-agents%2Fa1''\<rparr>,
      [CreateLogGroup ''/ecs/hyperliquid-agents/a1'',
       PutRetentionPolicy ''/ecs/hyperliquid-agents/a1'' 30,
       RegisterTaskDefinition
         (registerTaskDefinitionCommand cfg0 ''a1'' creds0 ''/ecs/hyperliquid-agents/a1''),
       DescribeServices \<lparr>ds_cluster = ''hyperliquid-agents'', ds_services = [''agent-svc-a1'']\<rparr>,
       CreateService (createServiceCommand cfg0 ''agent-svc-a1'' ''td:1'')])"
  by (simp add: deploy_defs fresh_def cfg0_def falsy_def
        encodeURIComponent_def encodeByte_def uriUnreserved_def hexDigit_def)

lemma inactive_trace:
  "snd (deployToFargate cfg0 inactive ''a1'' creds0)
   = [CreateLogGroup ''/ecs/hyperliquid-agents/a1'',
      PutRetentionPolicy ''/ecs/hyperliquid-agents/a1'' 30,
      RegisterTaskDefinition
        (registerTaskDefinitionCommand cfg0 ''a1'' creds0 ''/ecs/hyperliquid-agents/a1''),
      DescribeServices \<lparr>ds_cluster = ''hyperliquid-agents'', ds_services = [''agent-svc-a1'']\<rparr>,
      UpdateService (updateServiceCommand cfg0 ''agent-svc-a1'' ''td:1''),
      ConsoleWarn ''Failed to update service (INACTIVE), deleting and recreating: Service was not ACTIVE.'',
      DeleteService \<lparr>dl_cluster = ''hyperliquid-agents'', dl_service = ''agent-svc-a1'', dl_force = True\<rparr>,
      SetTimeout 2000,
      CreateService (createServiceCommand cfg0 ''agent-svc-a1'' ''td:1'')]"
  by (simp add: deploy_defs inactive_def fresh_def cfg0_def falsy_def template_def)

subsection \<open>What the service step does on each path\<close>

text \<open>
  The recovery path of lines 238--253: the update is rejected, the service is deleted
  with \<open>force\<close>, two seconds pass, the service is created, and its handle is returned.
\<close>

lemma recovery_sequence:
  assumes "describeServices P = Inr (Some (s # ss))"
    and "updateService P = Inl updateErr"
    and "deleteService P = None"
    and "createService P (length (filter isCreateService t)) = Inr arn"
  shows "deployToFargate_service cfg P serviceName taskDefArn t
         = (Inr arn,
            t @ [DescribeServices \<lparr>ds_cluster = ECS_CLUSTER cfg, ds_services = [serviceName]\<rparr>,
                 UpdateService (updateServiceCommand cfg serviceName taskDefArn),
                 ConsoleWarn (''Failed to update service ('' @ template (status s)
                              @ ''), deleting and recreating: ''
                              @ template (err_message updateErr)),
                 DeleteService \<lparr>dl_cluster = ECS_CLUSTER cfg, dl_service = serviceName,
                                dl_force = True\<rparr>,
                 SetTimeout 2000,
                 CreateService (createServiceCommand cfg serviceName taskDefArn)])"
  using assms
  by (simp add: deployToFargate_service_def deployToFargate_try_def createNewService_def Let_def)

text \<open>
  When the recovery fails, the error of line 255 names both failures, and it is reported
  (behind the prefix of line 273) as long as its text does not contain \<open>not found\<close>.
\<close>

lemma recovery_error_combined:
  assumes "describeServices P = Inr (Some (s # ss))"
    and "updateService P = Inl updateErr"
    and "deleteService P = Some deleteErr
         \<or> (deleteService P = None
            \<and> createService P (length (filter isCreateService t)) = Inl deleteErr)"
    and "\<not> str_includes (''Failed to update or delete service: ''
                           @ template (err_message updateErr)
                           @ ''. Delete attempt: '' @ template (err_message deleteErr))
                         ''not found''"
  shows "fst (deployToFargate_service cfg P serviceName taskDefArn t)
         = Inl (Error (''Failed to check service status: ''
                       @ ''Failed to update or delete service: ''
                       @ template (err_message updateErr)
                       @ ''. Delete attempt: '' @ template (err_message deleteErr)))"
  using assms
  by (auto simp: deployToFargate_service_def deployToFargate_try_def createNewService_def
                 Let_def isNotFound_def Error_def template_def)

text \<open>A describe call rejected for any other reason than not-found ends the deployment.\<close>

lemma describe_error_fatal:
  assumes "describeServices P = Inl err" and "\<not> isNotFound err"
  shows "deployToFargate_service cfg P serviceName taskDefArn t
         = (Inl (Error (''Failed to check service status: '' @ template (err_message err))),
            t @ [DescribeServices \<lparr>ds_cluster = ECS_CLUSTER cfg, ds_services = [serviceName]\<rparr>])"
  using assms
  by (simp add: deployToFargate_service_def deployToFargate_try_def Let_def)

subsection \<open>Configuration errors\<close>

text \<open>
  Claim C4. When the subnet list is empty, or the security group list is empty, or the
  execution role is unset (or the empty string), the deployment throws the configuration
  error of that setting and its trace is empty: no log group is created, no task
  definition is registered, and no service is described, created, updated or deleted.
\<close>

theorem config_error_before_any_call:
  assumes "length (SUBNET_IDS cfg) = 0 \<or> length (SECURITY_GROUP_IDS cfg) = 0
           \<or> falsy (ECS_EXECUTION_ROLE_ARN cfg)"
  shows "snd (deployToFargate cfg P agentId creds) = []
       \<and> (fst (deployToFargate cfg P agentId creds)
            = Inl (Error ''SUBNET_IDS environment variable is required'')
          \<or> fst (deployToFargate cfg P agentId creds)
            = Inl (Error ''SECURITY_GROUP_IDS environment variable is required'')
          \<or> fst (deployToFargate cfg P agentId creds)
            = Inl (Error ''ECS_EXECUTION_ROLE_ARN environment variable is required''))"
  using assms by (auto simp: deployToFargate_def)

text \<open>No subnet; and, on its own, no execution role.\<close>

theorem config_error_before_any_call_witness:
  "length (SUBNET_IDS (cfg0\<lparr>SUBNET_IDS := []\<rparr>)) = 0
   \<and> deployToFargate (cfg0\<lparr>SUBNET_IDS := []\<rparr>) fresh ''a1'' creds0
      = (Inl (Error ''SUBNET_IDS environment variable is required''), [])
   \<and> falsy (ECS_EXECUTION_ROLE_ARN (cfg0\<lparr>ECS_EXECUTION_ROLE_ARN := None\<rparr>))
   \<and> deployToFargate (cfg0\<lparr>ECS_EXECUTION_ROLE_ARN := None\<rparr>) fresh ''a1'' creds0
      = (Inl (Error ''ECS_EXECUTION_ROLE_ARN environment variable is required''), [])"
proof -
  have h: "length (SUBNET_IDS (cfg0\<lparr>SUBNET_IDS := []\<rparr>)) = 0" by simp
  have k: "falsy (ECS_EXECUTION_ROLE_ARN (cfg0\<lparr>ECS_EXECUTION_ROLE_ARN := None\<rparr>))"
    by (simp add: falsy_def)
  show ?thesis
    using h k
      config_error_before_any_call [OF disjI1, OF h, of fresh "''a1''" creds0]
      config_error_before_any_call [OF disjI2, OF disjI2, OF k, of fresh "''a1''" creds0]
    by (cases "deployToFargate (cfg0\<lparr>SUBNET_IDS := []\<rparr>) fresh ''a1'' creds0";
        cases "deployToFargate (cfg0\<lparr>ECS_EXECUTION_ROLE_ARN := None\<rparr>) fresh ''a1'' creds0")
       (simp add: deployToFargate_def cfg0_def falsy_def Error_def)
qed

subsection \<open>The log group\<close>

text \<open>
  Claim C7. Log-group provisioning for any agent identity succeeds when the group already
  exists: a creation rejected with ResourceAlreadyExistsException is taken as success, as
  is a creation that resolves, and the group name is returned. A failing retention-policy
  call is reported on the console and does not abort: the group name is still returned.
  Any other creation error is fatal: it is thrown as it is, and the retention policy is
  never requested.
\<close>

theorem ensureLogGroup_idempotent_best_effort:
  "((createLogGroup P = None
      \<or> (\<exists>e. createLogGroup P = Some e \<and> err_name e = ''ResourceAlreadyExistsException''))
     \<longrightarrow> fst (ensureLogGroup P agentId t) = Inr (''/ecs/hyperliquid-agents/'' @ agentId)
         \<and> (\<forall>e. putRetentionPolicy P = Some e \<longrightarrow>
               snd (ensureLogGroup P agentId t)
                 = t @ [CreateLogGroup (''/ecs/hyperliquid-agents/'' @ agentId),
                        PutRetentionPolicy (''/ecs/hyperliquid-agents/'' @ agentId) 30,
                        ConsoleWarn (''Retention policy failed: '' @ template (err_message e))]))
   \<and> (\<forall>e. createLogGroup P = Some e \<and> err_name e \<noteq> ''ResourceAlreadyExistsException''
         \<longrightarrow> ensureLogGroup P agentId t
               = (Inl e, t @ [CreateLogGroup (''/ecs/hyperliquid-agents/'' @ agentId)]))"
  by (auto simp: ensureLogGroup_def Let_def split: option.splits)

text \<open>
  The group exists already and the retention policy is refused: the name comes back and
  the refusal is on the console. The creation is refused for another reason: the error
  comes back and nothing else is sent.
\<close>

theorem ensureLogGroup_idempotent_best_effort_witness:
  "fst (ensureLogGroup
          (fresh\<lparr>createLogGroup := Some (JsError ''ResourceAlreadyExistsException'' (Some ''exists'')),
                 putRetentionPolicy := Some (JsError ''ThrottlingException'' (Some ''slow down''))\<rparr>)
          ''a1'' [])
     = Inr ''/ecs/hyperliquid-agents/a1''
   \<and> snd (ensureLogGroup
          (fresh\<lparr>createLogGroup := Some (JsError ''ResourceAlreadyExistsException'' (Some ''exists'')),
                 putRetentionPolicy := Some (JsError ''ThrottlingException'' (Some ''slow down''))\<rparr>)
          ''a1'' [])
     = [CreateLogGroup ''/ecs/hyperliquid-agents/a1'',
        PutRetentionPolicy ''/ecs/hyperliquid-agents/a1'' 30,
        ConsoleWarn ''Retention policy failed: slow down'']
   \<and> ensureLogGroup
          (fresh\<lparr>createLogGroup := Some (JsError ''AccessDeniedException'' (Some ''no''))\<rparr>) ''a1'' []
     = (Inl (JsError ''AccessDeniedException'' (Some ''no'')),
        [CreateLogGroup ''/ecs/hyperliquid-agents/a1''])"
  using ensureLogGroup_idempotent_best_effort
          [of "fresh\<lparr>createLogGroup := Some (JsError ''ResourceAlreadyExistsException'' (Some ''exists'')),
                      putRetentionPolicy := Some (JsError ''ThrottlingException'' (Some ''slow down''))\<rparr>"
              "''a1''" "[]"]
        ensureLogGroup_idempotent_best_effort
          [of "fresh\<lparr>createLogGroup := Some (JsError ''AccessDeniedException'' (Some ''no''))\<rparr>"
              "''a1''" "[]"]
  by (simp add: template_def)

subsection \<open>Absence of the service\<close>

lemma service_absent_attempt:
  assumes "d = Inr None \<or> d = Inr (Some []) \<or> (\<exists>e. d = Inl e \<and> isNotFound e)"
  shows "prefix (t @ [DescribeServices \<lparr>ds_cluster = ECS_CLUSTER cfg, ds_services = [serviceName]\<rparr>,
                      CreateService (createServiceCommand cfg serviceName taskDefArn)])
                (snd (deployToFargate_service cfg (P\<lparr>describeServices := d\<rparr>)
                        serviceName taskDefArn t))"
  using assms
  by (auto simp: deployToFargate_service_def deployToFargate_try_def createNewService_def Let_def
           split: sum.splits)

lemma service_absent:
  assumes "filter isCreateService t = []" and "createService P 0 = Inr arn"
    and "d = Inr None \<or> d = Inr (Some []) \<or> (\<exists>e. d = Inl e \<and> isNotFound e)"
  shows "deployToFargate_service cfg (P\<lparr>describeServices := d\<rparr>) serviceName taskDefArn t
         = (Inr arn,
            t @ [DescribeServices \<lparr>ds_cluster = ECS_CLUSTER cfg, ds_services = [serviceName]\<rparr>,
                 CreateService (createServiceCommand cfg serviceName taskDefArn)])"
  using assms
  by (auto simp: deployToFargate_service_def deployToFargate_try_def createNewService_def Let_def)

text \<open>
  The platform signals that the service is absent in two ways: the describe call resolves
  with no service (an empty list, or no list at all), or it rejects with a not-found error
  (the test of line 265). In a deployment that got as far as the describe call, the call
  that follows it is the creation of the service, whatever the signal. When that create
  call resolves, the outcome is one and the same: no other call follows, and the handle
  that the create call resolved with is returned.
\<close>

lemma absent_either_way_creates:
  assumes "length (SUBNET_IDS cfg) \<noteq> 0" and "length (SECURITY_GROUP_IDS cfg) \<noteq> 0"
    and "\<not> falsy (ECS_EXECUTION_ROLE_ARN cfg)"
    and "fst (ensureLogGroup P agentId []) = Inr logGroupName"
    and "registerTaskDefinition P = Inr taskDefArn"
    and "d = Inr None \<or> d = Inr (Some []) \<or> (\<exists>e. d = Inl e \<and> isNotFound e)"
  shows "prefix (snd (ensureLogGroup P agentId [])
                 @ [RegisterTaskDefinition
                      (registerTaskDefinitionCommand cfg agentId creds logGroupName),
                    DescribeServices
                      \<lparr>ds_cluster = ECS_CLUSTER cfg, ds_services = [''agent-svc-'' @ agentId]\<rparr>,
                    CreateService (createServiceCommand cfg (''agent-svc-'' @ agentId) taskDefArn)])
                (snd (deployToFargate cfg (P\<lparr>describeServices := d\<rparr>) agentId creds))
       \<and> (createService P 0 = Inr arn \<longrightarrow>
           deployToFargate cfg (P\<lparr>describeServices := d\<rparr>) agentId creds
           = (Inr \<lparr>dep_serviceArn = arn,
                   dep_taskDefArn = taskDefArn,
                   dep_logGroupName = logGroupName,
                   dep_logUrl = ''https://'' @ AWS_REGION cfg
                       @ ''.console.aws.amazon.com/cloudwatch/home?region='' @ AWS_REGION cfg
                       @ ''#logsV2:log-groups/log-group/'' @ encodeURIComponent logGroupName\<rparr>,
              snd (ensureLogGroup P agentId [])
              @ [RegisterTaskDefinition
                   (registerTaskDefinitionCommand cfg agentId creds logGroupName),
                 DescribeServices
                   \<lparr>ds_cluster = ECS_CLUSTER cfg, ds_services = [''agent-svc-'' @ agentId]\<rparr>,
                 CreateService (createServiceCommand cfg (''agent-svc-'' @ agentId) taskDefArn)]))"
proof -
  obtain t1 where e: "ensureLogGroup P agentId [] = (Inr logGroupName, t1)"
    using assms(4) by (cases "ensureLogGroup P agentId []") simp
  let ?t2 = "t1 @ [RegisterTaskDefinition
                     (registerTaskDefinitionCommand cfg agentId creds logGroupName)]"
  have nc: "filter isCreateService ?t2 = []"
    using ensureLogGroup_no_create [of P agentId "[]"] e by simp
  have run: "snd (deployToFargate cfg (P\<lparr>describeServices := d\<rparr>) agentId creds)
             = snd (deployToFargate_service cfg (P\<lparr>describeServices := d\<rparr>)
                      (''agent-svc-'' @ agentId) taskDefArn ?t2)"
    using assms(1,2,3,5) e
    by (simp add: deployToFargate_def Let_def split: prod.splits sum.splits)
  have attempt: ?thesis if "createService P 0 \<noteq> Inr arn"
    using that e run
      service_absent_attempt [OF assms(6), of ?t2 cfg "''agent-svc-'' @ agentId" taskDefArn P]
    by simp
  have resolved: ?thesis if c: "createService P 0 = Inr arn"
    using assms(1,2,3,5) e service_absent [OF nc c assms(6)]
    by (simp add: deployToFargate_def Let_def)
  show ?thesis using attempt resolved by blast
qed

text \<open>The empty answer and the not-found rejection, side by side, on the sample platform.\<close>

lemma absent_either_way_creates_sample:
  "length (SUBNET_IDS cfg0) \<noteq> 0 \<and> length (SECURITY_GROUP_IDS cfg0) \<noteq> 0
   \<and> \<not> falsy (ECS_EXECUTION_ROLE_ARN cfg0)
   \<and> fst (ensureLogGroup fresh ''a1'' []) = Inr ''/ecs/hyperliquid-agents/a1''
   \<and> registerTaskDefinition fresh = Inr ''td:1''
   \<and> createService fresh 0 = Inr ''svc:1''
   \<and> isNotFound (JsError ''ServiceNotFoundException'' (Some ''Service not found.''))
   \<and> fst (deployToFargate cfg0
            (fresh\<lparr>describeServices :=
                     Inl (JsError ''ServiceNotFoundException'' (Some ''Service not found.''))\<rparr>)
            ''a1'' creds0)
      = fst (deployToFargate cfg0 (fresh\<lparr>describeServices := Inr (Some [])\<rparr>) ''a1'' creds0)
   \<and> map_sum id dep_serviceArn
        (fst (deployToFargate cfg0
               (fresh\<lparr>describeServices :=
                        Inl (JsError ''ServiceNotFoundException'' (Some ''Service not found.''))\<rparr>)
               ''a1'' creds0))
      = Inr ''svc:1''"
proof -
  have h1: "length (SUBNET_IDS cfg0) \<noteq> 0" and h2: "length (SECURITY_GROUP_IDS cfg0) \<noteq> 0"
    and h3: "\<not> falsy (ECS_EXECUTION_ROLE_ARN cfg0)"
    by (simp_all add: cfg0_def falsy_def)
  have h4: "fst (ensureLogGroup fresh ''a1'' []) = Inr ''/ecs/hyperliquid-agents/a1''"
    by (simp add: ensureLogGroup_def fresh_def Let_def)
  have h5: "registerTaskDefinition fresh = Inr ''td:1''"
    and h6: "createService fresh 0 = Inr ''svc:1''"
    by (simp_all add: fresh_def)
  have h7: "isNotFound (JsError ''ServiceNotFoundException'' (Some ''Service not found.''))"
    by (simp add: isNotFound_def)
  have a: "Inl (JsError ''ServiceNotFoundException'' (Some ''Service not found.'')) = Inr None
           \<or> Inl (JsError ''ServiceNotFoundException'' (Some ''Service not found.'')) = Inr (Some [])
           \<or> (\<exists>e. (Inl (JsError ''ServiceNotFoundException'' (Some ''Service not found.''))
                      :: js_error + ecsService list option) = Inl e \<and> isNotFound e)"
    using h7 by simp
  have b: "(Inr (Some []) :: js_error + ecsService list option) = Inr None
           \<or> (Inr (Some []) :: js_error + ecsService list option) = Inr (Some [])
           \<or> (\<exists>e. (Inr (Some []) :: js_error + ecsService list option) = Inl e \<and> isNotFound e)"
    by simp
  show ?thesis
    using h1 h2 h3 h4 h5 h6 h7
      absent_either_way_creates [OF h1 h2 h3 h4 h5 a, of creds0 "''svc:1''"]
      absent_either_way_creates [OF h1 h2 h3 h4 h5 b, of creds0 "''svc:1''"]
    by simp
qed

text \<open>
  Claim C2, at inputs where the code departs from it. The claim gives the two signals of
  absence the same outcome in every deployment. The create of the \<open>else\<close> branch
  (line 260) stands inside the \<open>try\<close> of line 214, so its rejection reaches the
  \<open>catch\<close> of line 263, while the create of the not-found path (line 267) has a
  \<open>catch\<close> of its own. With the first create rejected as \<open>Cluster not found.\<close>, the
  empty answer leads to a second create and to success, the not-found rejection to one
  create and to failure. With every create rejected as \<open>Access denied\<close>, the two
  signals report different errors.
\<close>

theorem absent_signals_diverge:
  "deployToFargate cfg0 (firstCreateRejected\<lparr>describeServices := Inr (Some [])\<rparr>) ''a1'' creds0
   = (Inr \<lparr>dep_serviceArn = ''svc:2'',
           dep_taskDefArn = ''td:1'',
           dep_logGroupName = ''/ecs/hyperliquid-agents/a1'',
           dep_logUrl = ''https://us-east-1.console.aws.amazon.com/cloudwatch/home?region=us-east-1#logsV2:log-groups/log-group/%2Fecs%2Fhyperliquid-agents%2Fa1''\<rparr>,
      [CreateLogGroup ''/ecs/hyperliquid-agents/a1'',
       PutRetentionPolicy ''/ecs/hyperliquid-agents/a1'' 30,
       RegisterTaskDefinition
         (registerTaskDefinitionCommand cfg0 ''a1'' creds0 ''/ecs/hyperliquid-agents/a1''),
       DescribeServices \<lparr>ds_cluster = ''hyperliquid-agents'', ds_services = [''agent-svc-a1'']\<rparr>,
       CreateService (createServiceCommand cfg0 ''agent-svc-a1'' ''td:1''),
       CreateService (createServiceCommand cfg0 ''agent-svc-a1'' ''td:1'')])
   \<and> deployToFargate cfg0
        (firstCreateRejected\<lparr>describeServices :=
           Inl (JsError ''ServiceNotFoundException'' (Some ''Service not found.''))\<rparr>)
        ''a1'' creds0
   = (Inl (Error ''Failed to create service: Cluster not found.''),
      [CreateLogGroup ''/ecs/hyperliquid-agents/a1'',
       PutRetentionPolicy ''/ecs/hyperliquid-agents/a1'' 30,
       RegisterTaskDefinition
         (registerTaskDefinitionCommand cfg0 ''a1'' creds0 ''/ecs/hyperliquid-agents/a1''),
       DescribeServices \<lparr>ds_cluster = ''hyperliquid-agents'', ds_services = [''agent-svc-a1'']\<rparr>,
       CreateService (createServiceCommand cfg0 ''agent-svc-a1'' ''td:1'')])
   \<and> fst (deployToFargate cfg0 (createDenied\<lparr>describeServices := Inr (Some [])\<rparr>)
            ''a1'' creds0)
   = Inl (Error ''Failed to check service status: Access denied'')
   \<and> fst (deployToFargate cfg0
            (createDenied\<lparr>describeServices :=
               Inl (JsError ''ServiceNotFoundException'' (Some ''Service not found.''))\<rparr>)
            ''a1'' creds0)
   = Inl (Error ''Failed to create service: Access denied'')"
  by (simp add: deploy_defs firstCreateRejected_def createDenied_def fresh_def cfg0_def
        falsy_def template_def isNotFound_def Error_def
        encodeURIComponent_def encodeByte_def uriUnreserved_def hexDigit_def)

subsection \<open>Derived names\<close>

text \<open>
  Claim C3, as the code has it. For every agent identity \<open>x\<close>, every call of a deployment
  carries the derived names: the log group is \<open>/ecs/hyperliquid-agents/x\<close>, the task
  family \<open>hyperliquid-agent-x\<close>, the service \<open>agent-svc-x\<close>. The log group name is
  returned, and the returned log URL ends with the percent-encoded log group name,
  \<open>%2Fecs%2Fhyperliquid-agents%2F\<close> followed by the encoded \<open>x\<close>; for the identity
  \<open>a1\<close> it contains \<open>%2Fecs%2Fhyperliquid-agents%2Fa1\<close>.
\<close>

theorem derived_names:
  "(\<forall>c \<in> set (snd (deployToFargate cfg P agentId creds)).
      (case c of
         CreateLogGroup n \<Rightarrow> n = ''/ecs/hyperliquid-agents/'' @ agentId
       | PutRetentionPolicy n k \<Rightarrow> n = ''/ecs/hyperliquid-agents/'' @ agentId
       | RegisterTaskDefinition r \<Rightarrow> family r = ''hyperliquid-agent-'' @ agentId
       | DescribeServices r \<Rightarrow> ds_services r = [''agent-svc-'' @ agentId]
       | CreateService r \<Rightarrow> cs_serviceName r = ''agent-svc-'' @ agentId
       | UpdateService r \<Rightarrow> us_service r = ''agent-svc-'' @ agentId
       | DeleteService r \<Rightarrow> dl_service r = ''agent-svc-'' @ agentId
       | _ \<Rightarrow> True))
   \<and> (\<forall>res. fst (deployToFargate cfg P agentId creds) = Inr res \<longrightarrow>
         dep_logGroupName res = ''/ecs/hyperliquid-agents/'' @ agentId
         \<and> dep_logUrl res
             = ''https://'' @ AWS_REGION cfg
               @ ''.console.aws.amazon.com/cloudwatch/home?region='' @ AWS_REGION cfg
               @ ''#logsV2:log-groups/log-group/%2Fecs%2Fhyperliquid-agents%2F''
               @ encodeURIComponent agentId
         \<and> (agentId = ''a1'' \<longrightarrow>
               str_includes (dep_logUrl res) ''%2Fecs%2Fhyperliquid-agents%2Fa1''))"
proof (intro conjI ballI allI impI)
  fix c assume "c \<in> set (snd (deployToFargate cfg P agentId creds))"
  from deployToFargate_calls [OF this]
  show "case c of
         CreateLogGroup n \<Rightarrow> n = ''/ecs/hyperliquid-agents/'' @ agentId
       | PutRetentionPolicy n k \<Rightarrow> n = ''/ecs/hyperliquid-agents/'' @ agentId
       | RegisterTaskDefinition r \<Rightarrow> family r = ''hyperliquid-agent-'' @ agentId
       | DescribeServices r \<Rightarrow> ds_services r = [''agent-svc-'' @ agentId]
       | CreateService r \<Rightarrow> cs_serviceName r = ''agent-svc-'' @ agentId
       | UpdateService r \<Rightarrow> us_service r = ''agent-svc-'' @ agentId
       | DeleteService r \<Rightarrow> dl_service r = ''agent-svc-'' @ agentId
       | _ \<Rightarrow> True"
    by (auto simp: registerTaskDefinitionCommand_def createServiceCommand_def
                   updateServiceCommand_def Let_def)
next
  fix res assume r: "fst (deployToFargate cfg P agentId creds) = Inr res"
  show "dep_logGroupName res = ''/ecs/hyperliquid-agents/'' @ agentId"
    using deployToFargate_result [OF r] by simp
  show url: "dep_logUrl res
             = ''https://'' @ AWS_REGION cfg
               @ ''.console.aws.amazon.com/cloudwatch/home?region='' @ AWS_REGION cfg
               @ ''#logsV2:log-groups/log-group/%2Fecs%2Fhyperliquid-agents%2F''
               @ encodeURIComponent agentId"
    using deployToFargate_result [OF r]
    by (simp add: encodeURIComponent_def encodeByte_def uriUnreserved_def hexDigit_def)
  assume a1: "agentId = ''a1''"
  have enc: "encodeURIComponent ''a1'' = ''a1''"
    by (simp add: encodeURIComponent_def encodeByte_def uriUnreserved_def)
  have "dep_logUrl res
        = (''https://'' @ AWS_REGION cfg
           @ ''.console.aws.amazon.com/cloudwatch/home?region='' @ AWS_REGION cfg
           @ ''#logsV2:log-groups/log-group/'')
          @ ''%2Fecs%2Fhyperliquid-agents%2Fa1'' @ []"
    using url a1 enc by simp
  then show "str_includes (dep_logUrl res) ''%2Fecs%2Fhyperliquid-agents%2Fa1''"
    unfolding str_includes_sublist by (rule sublist_middle)
qed

theorem derived_names_witness:
  "CreateService (createServiceCommand cfg0 ''agent-svc-a1'' ''td:1'')
     \<in> set (snd (deployToFargate cfg0 fresh ''a1'' creds0))
   \<and> cs_serviceName (createServiceCommand cfg0 ''agent-svc-a1'' ''td:1'') = ''agent-svc-a1''
   \<and> RegisterTaskDefinition
        (registerTaskDefinitionCommand cfg0 ''a1'' creds0 ''/ecs/hyperliquid-agents/a1'')
     \<in> set (snd (deployToFargate cfg0 fresh ''a1'' creds0))
   \<and> family (registerTaskDefinitionCommand cfg0 ''a1'' creds0 ''/ecs/hyperliquid-agents/a1'')
     = ''hyperliquid-agent-a1''
   \<and> map_sum id dep_logGroupName (fst (deployToFargate cfg0 fresh ''a1'' creds0))
     = Inr ''/ecs/hyperliquid-agents/a1''
   \<and> map_sum id (\<lambda>res. str_includes (dep_logUrl res) ''%2Fecs%2Fhyperliquid-agents%2Fa1'')
        (fst (deployToFargate cfg0 fresh ''a1'' creds0))
     = Inr True"
proof -
  let ?run = "deployToFargate cfg0 fresh ''a1'' creds0"
  obtain res where r: "fst ?run = Inr res" by (simp add: fresh_run)
  have m1: "CreateService (createServiceCommand cfg0 ''agent-svc-a1'' ''td:1'') \<in> set (snd ?run)"
    and m2: "RegisterTaskDefinition
               (registerTaskDefinitionCommand cfg0 ''a1'' creds0 ''/ecs/hyperliquid-agents/a1'')
             \<in> set (snd ?run)"
    by (simp_all add: fresh_run)
  note n = derived_names [of cfg0 fresh "''a1''" creds0]
  from bspec [OF conjunct1 [OF n] m1]
  have c1: "cs_serviceName (createServiceCommand cfg0 ''agent-svc-a1'' ''td:1'')
            = ''agent-svc-a1''"
    by simp
  from bspec [OF conjunct1 [OF n] m2]
  have c2: "family (registerTaskDefinitionCommand cfg0 ''a1'' creds0
                      ''/ecs/hyperliquid-agents/a1'') = ''hyperliquid-agent-a1''"
    by simp
  note k = mp [OF spec [OF conjunct2 [OF n]] r]
  have c3: "dep_logGroupName res = ''/ecs/hyperliquid-agents/a1''"
    using conjunct1 [OF k] by simp
  have c4: "str_includes (dep_logUrl res) ''%2Fecs%2Fhyperliquid-agents%2Fa1''"
    using conjunct2 [OF conjunct2 [OF k]] by simp
  show ?thesis using m1 m2 c1 c2 c3 c4 r by simp
qed

text \<open>
  The claim as the specification words it fails for the identity \<open>a1\<close>: the task family
  is not \<open>agent-a1\<close>, the log group is not \<open>/agents/a1\<close>, and the returned log URL does
  not contain \<open>/agents/a1\<close>.
\<close>

theorem derived_names_counterexample:
  "map family (registered (snd (deployToFargate cfg0 fresh ''a1'' creds0)))
     = [''hyperliquid-agent-a1'']
   \<and> map family (registered (snd (deployToFargate cfg0 fresh ''a1'' creds0))) \<noteq> [''agent-a1'']
   \<and> map_sum id dep_logGroupName (fst (deployToFargate cfg0 fresh ''a1'' creds0))
     = Inr ''/ecs/hyperliquid-agents/a1''
   \<and> map_sum id dep_logGroupName (fst (deployToFargate cfg0 fresh ''a1'' creds0))
     \<noteq> Inr ''/agents/a1''
   \<and> map_sum id dep_logUrl (fst (deployToFargate cfg0 fresh ''a1'' creds0))
     = Inr ''https://us-east-1.console.aws.amazon.com/cloudwatch/home?region=us-east-1#logsV2:log-groups/log-group/%2Fecs%2Fhyperliquid-agents%2Fa1''
   \<and> map_sum id (\<lambda>res. str_includes (dep_logUrl res) ''/agents/a1'')
        (fst (deployToFargate cfg0 fresh ''a1'' creds0))
     = Inr False"
  by (simp add: fresh_run registerTaskDefinitionCommand_def)

subsection \<open>Update first, delete as a last resort\<close>

text \<open>
  Claim C5. Whenever the describe call of a deployment finds an existing service, the
  next call is an update of the service with \<open>forceNewDeployment\<close> set. A delete is
  issued only when the platform has rejected that update: the update, the warning and
  the delete follow one another in the trace, and there is no other delete.
\<close>

theorem update_first_delete_last_resort:
  "((\<exists>s ss. describeServices P = Inr (Some (s # ss)))
      \<and> DescribeServices d \<in> set (snd (deployToFargate cfg P agentId creds))
     \<longrightarrow> (\<exists>u. sublist [DescribeServices d, UpdateService u]
                        (snd (deployToFargate cfg P agentId creds))
              \<and> us_forceNewDeployment u))
   \<and> (DeleteService q \<in> set (snd (deployToFargate cfg P agentId creds))
     \<longrightarrow> (\<exists>e u w. updateService P = Inl e
              \<and> sublist [UpdateService u, ConsoleWarn w, DeleteService q]
                         (snd (deployToFargate cfg P agentId creds))
              \<and> us_forceNewDeployment u
              \<and> length (filter isDeleteService (snd (deployToFargate cfg P agentId creds))) = 1))"
proof -
  define tr where "tr = snd (deployToFargate cfg P agentId creds)"
  define sn where "sn = ''agent-svc-'' @ agentId"
  define D where "D = DescribeServices \<lparr>ds_cluster = ECS_CLUSTER cfg, ds_services = [sn]\<rparr>"
  define Q where "Q = DeleteService \<lparr>dl_cluster = ECS_CLUSTER cfg, dl_service = sn, dl_force = True\<rparr>"
  have same_d: "DescribeServices d \<in> set tr \<Longrightarrow> DescribeServices d = D"
    using deployToFargate_calls [of "DescribeServices d" cfg P agentId creds]
    by (auto simp: tr_def D_def sn_def)
  have same_q: "DeleteService q \<in> set tr \<Longrightarrow> DeleteService q = Q"
    using deployToFargate_calls [of "DeleteService q" cfg P agentId creds]
    by (auto simp: tr_def Q_def sn_def)
  from deployToFargate_reach [of cfg P agentId creds]
  consider (early) "\<forall>c \<in> set tr. isSetup c"
    | (reach) pre td where "\<forall>c \<in> set pre. isSetup c"
        and "tr = snd (deployToFargate_service cfg P sn td pre)"
    unfolding tr_def sn_def by blast
  then have
    "((\<exists>s ss. describeServices P = Inr (Some (s # ss))) \<and> DescribeServices d \<in> set tr
       \<longrightarrow> (\<exists>u. sublist [DescribeServices d, UpdateService u] tr \<and> us_forceNewDeployment u))
     \<and> (DeleteService q \<in> set tr
       \<longrightarrow> (\<exists>e u w. updateService P = Inl e
              \<and> sublist [UpdateService u, ConsoleWarn w, DeleteService q] tr
              \<and> us_forceNewDeployment u
              \<and> length (filter isDeleteService tr) = 1))"
  proof cases
    case early
    then show ?thesis by fastforce
  next
    case reach
    let ?U = "UpdateService (updateServiceCommand cfg sn td)"
    have force: "us_forceNewDeployment (updateServiceCommand cfg sn td)"
      by (simp add: updateServiceCommand_def)
    have pre_nd: "filter isDeleteService pre = []"
      using reach(1) isSetup_not_delete by (auto simp: filter_empty_conv)
    obtain more where tr: "tr = snd (deployToFargate_try cfg P sn td pre) @ more"
      and more: "\<forall>c \<in> set more. isCreateService c"
      using service_extends_try [of cfg P sn td pre] reach(2) by auto
    have more_nd: "filter isDeleteService more = []"
      using more isCreate_not_delete by (auto simp: filter_empty_conv)
    show ?thesis
    proof (cases "\<exists>s ss. describeServices P = Inr (Some (s # ss))")
      case False
      have "\<forall>c \<in> set tr. \<not> isDeleteService c"
        using try_not_found [OF False, of cfg sn td pre] tr more reach(1)
          isSetup_not_delete isCreate_not_delete by auto
      then have "DeleteService q \<notin> set tr" by auto
      with False show ?thesis by simp
    next
      case True
      then obtain s ss where found: "describeServices P = Inr (Some (s # ss))" by blast
      from try_found [OF found, of cfg sn td pre]
      consider (updated) arn where "updateService P = Inr arn"
          and "snd (deployToFargate_try cfg P sn td pre) = pre @ [D, ?U]"
        | (rejected) e w post where "updateService P = Inl e"
          and "snd (deployToFargate_try cfg P sn td pre) = pre @ [D, ?U, ConsoleWarn w, Q] @ post"
          and "\<forall>c \<in> set post. \<not> isDeleteService c"
        unfolding D_def Q_def by blast
      then show ?thesis
      proof cases
        case updated
        have shape: "tr = pre @ [D, ?U] @ more" using tr updated(2) by simp
        have "sublist [D, ?U] tr" by (rule sublist_middle [OF shape])
        moreover have "DeleteService q \<notin> set tr"
        proof
          assume "DeleteService q \<in> set tr"
          then have "DeleteService q \<in> set (filter isDeleteService tr)" by simp
          then show False using pre_nd more_nd by (simp add: shape D_def)
        qed
        ultimately show ?thesis using same_d force by auto
      next
        case rejected
        have post_nd: "filter isDeleteService post = []"
          using rejected(3) by (auto simp: filter_empty_conv)
        have shape1: "tr = pre @ [D, ?U] @ ([ConsoleWarn w, Q] @ post @ more)"
          using tr rejected(2) by simp
        have shape2: "tr = (pre @ [D]) @ [?U, ConsoleWarn w, Q] @ (post @ more)"
          using tr rejected(2) by simp
        have a: "sublist [D, ?U] tr" by (rule sublist_middle [OF shape1])
        have b: "sublist [?U, ConsoleWarn w, Q] tr" by (rule sublist_middle [OF shape2])
        have c: "length (filter isDeleteService tr) = 1"
          using pre_nd post_nd more_nd by (simp add: shape2 D_def Q_def)
        show ?thesis using a b c same_d same_q force rejected(1) by auto
      qed
    qed
  qed
  then show ?thesis unfolding tr_def .
qed

theorem update_first_delete_last_resort_witness:
  "describeServices inactive = Inr (Some [\<lparr>status = Some ''INACTIVE''\<rparr>])
   \<and> DescribeServices \<lparr>ds_cluster = ''hyperliquid-agents'', ds_services = [''agent-svc-a1'']\<rparr>
       \<in> set (snd (deployToFargate cfg0 inactive ''a1'' creds0))
   \<and> DeleteService \<lparr>dl_cluster = ''hyperliquid-agents'', dl_service = ''agent-svc-a1'',
                     dl_force = True\<rparr>
       \<in> set (snd (deployToFargate cfg0 inactive ''a1'' creds0))
   \<and> (\<exists>u. sublist [DescribeServices \<lparr>ds_cluster = ''hyperliquid-agents'',
                                       ds_services = [''agent-svc-a1'']\<rparr>,
                     UpdateService u]
                    (snd (deployToFargate cfg0 inactive ''a1'' creds0))
          \<and> us_forceNewDeployment u)
   \<and> (\<exists>e u w. updateService inactive = Inl e
          \<and> sublist [UpdateService u, ConsoleWarn w,
                      DeleteService \<lparr>dl_cluster = ''hyperliquid-agents'',
                                     dl_service = ''agent-svc-a1'', dl_force = True\<rparr>]
                     (snd (deployToFargate cfg0 inactive ''a1'' creds0))
          \<and> us_forceNewDeployment u
          \<and> length (filter isDeleteService (snd (deployToFargate cfg0 inactive ''a1'' creds0))) = 1)"
proof -
  have found: "describeServices inactive = Inr (Some [\<lparr>status = Some ''INACTIVE''\<rparr>])"
    by (simp add: inactive_def fresh_def)
  have m1: "DescribeServices \<lparr>ds_cluster = ''hyperliquid-agents'', ds_services = [''agent-svc-a1'']\<rparr>
              \<in> set (snd (deployToFargate cfg0 inactive ''a1'' creds0))"
    and m2: "DeleteService \<lparr>dl_cluster = ''hyperliquid-agents'', dl_service = ''agent-svc-a1'',
                            dl_force = True\<rparr>
              \<in> set (snd (deployToFargate cfg0 inactive ''a1'' creds0))"
    by (simp_all add: inactive_trace)
  show ?thesis
    using found m1 m2
      update_first_delete_last_resort
        [of inactive
            "\<lparr>ds_cluster = ''hyperliquid-agents'', ds_services = [''agent-svc-a1'']\<rparr>"
            cfg0 "''a1''" creds0
            "\<lparr>dl_cluster = ''hyperliquid-agents'', dl_service = ''agent-svc-a1'',
              dl_force = True\<rparr>"]
    by blast
qed

subsection \<open>One instance, surge then drain\<close>

text \<open>
  Claim C6. Every create and every update of a service that a deployment issues asks for
  one running instance (\<open>desiredCount = 1\<close>) and for the same roll-out policy: at most
  200 per cent and at least 100 per cent of the desired count during the transition.
\<close>

theorem one_instance_surge_then_drain:
  "\<forall>c \<in> set (snd (deployToFargate cfg P agentId creds)).
     (case c of
        CreateService r \<Rightarrow>
          cs_desiredCount r = 1
          \<and> cs_deploymentConfiguration r = \<lparr>maximumPercent = 200, minimumHealthyPercent = 100\<rparr>
      | UpdateService r \<Rightarrow>
          us_desiredCount r = 1
          \<and> us_deploymentConfiguration r = \<lparr>maximumPercent = 200, minimumHealthyPercent = 100\<rparr>
      | _ \<Rightarrow> True)"
proof
  fix c assume "c \<in> set (snd (deployToFargate cfg P agentId creds))"
  from deployToFargate_calls [OF this] show "case c of
        CreateService r \<Rightarrow>
          cs_desiredCount r = 1
          \<and> cs_deploymentConfiguration r = \<lparr>maximumPercent = 200, minimumHealthyPercent = 100\<rparr>
      | UpdateService r \<Rightarrow>
          us_desiredCount r = 1
          \<and> us_deploymentConfiguration r = \<lparr>maximumPercent = 200, minimumHealthyPercent = 100\<rparr>
      | _ \<Rightarrow> True"
    by (auto simp: createServiceCommand_def updateServiceCommand_def)
qed

text \<open>The recovery run issues an update and a create; both ask for it.\<close>

theorem one_instance_surge_then_drain_witness:
  "UpdateService (updateServiceCommand cfg0 ''agent-svc-a1'' ''td:1'')
     \<in> set (snd (deployToFargate cfg0 inactive ''a1'' creds0))
   \<and> us_desiredCount (updateServiceCommand cfg0 ''agent-svc-a1'' ''td:1'') = 1
   \<and> us_deploymentConfiguration (updateServiceCommand cfg0 ''agent-svc-a1'' ''td:1'')
     = \<lparr>maximumPercent = 200, minimumHealthyPercent = 100\<rparr>
   \<and> CreateService (createServiceCommand cfg0 ''agent-svc-a1'' ''td:1'')
     \<in> set (snd (deployToFargate cfg0 inactive ''a1'' creds0))
   \<and> cs_desiredCount (createServiceCommand cfg0 ''agent-svc-a1'' ''td:1'') = 1
   \<and> cs_deploymentConfiguration (createServiceCommand cfg0 ''agent-svc-a1'' ''td:1'')
     = \<lparr>maximumPercent = 200, minimumHealthyPercent = 100\<rparr>"
proof -
  have m1: "UpdateService (updateServiceCommand cfg0 ''agent-svc-a1'' ''td:1'')
              \<in> set (snd (deployToFargate cfg0 inactive ''a1'' creds0))"
    and m2: "CreateService (createServiceCommand cfg0 ''agent-svc-a1'' ''td:1'')
              \<in> set (snd (deployToFargate cfg0 inactive ''a1'' creds0))"
    by (simp_all add: inactive_trace)
  show ?thesis
    using m1 m2
      bspec [OF one_instance_surge_then_drain m1]
      bspec [OF one_instance_surge_then_drain m2]
    by simp
qed

subsection \<open>The container image\<close>

text \<open>
  Claim C8, as the code has it. \<open>deployToFargate\<close> takes the agent identity and the
  credentials, and no image reference. Every task definition it registers declares the
  one image \<open>ECR_REGISTRY/ECR_REPOSITORY:latest\<close> of the process configuration,
  whatever the caller passes.
\<close>

theorem image_from_process_configuration:
  "\<forall>r \<in> set (registered (snd (deployToFargate cfg P agentId creds))).
     map cd_image (containerDefinitions r)
       = [ECR_REGISTRY cfg @ ''/'' @ ECR_REPOSITORY cfg @ '':latest'']"
proof
  fix r assume "r \<in> set (registered (snd (deployToFargate cfg P agentId creds)))"
  then have "RegisterTaskDefinition r \<in> set (snd (deployToFargate cfg P agentId creds))"
    by (simp add: set_registered)
  from deployToFargate_calls [OF this]
  show "map cd_image (containerDefinitions r)
          = [ECR_REGISTRY cfg @ ''/'' @ ECR_REPOSITORY cfg @ '':latest'']"
    by (auto simp: registerTaskDefinitionCommand_def Let_def)
qed

theorem image_from_process_configuration_witness:
  "registered (snd (deployToFargate cfg0 fresh ''a1'' creds0))
     = [registerTaskDefinitionCommand cfg0 ''a1'' creds0 ''/ecs/hyperliquid-agents/a1'']
   \<and> map cd_image (containerDefinitions
          (registerTaskDefinitionCommand cfg0 ''a1'' creds0 ''/ecs/hyperliquid-agents/a1''))
     = [''123456789012.dkr.ecr.us-east-1.amazonaws.com/hyperliquid-agent:latest'']"
proof -
  have m: "registered (snd (deployToFargate cfg0 fresh ''a1'' creds0))
     = [registerTaskDefinitionCommand cfg0 ''a1'' creds0 ''/ecs/hyperliquid-agents/a1'']"
    by (simp add: fresh_run)
  then have "registerTaskDefinitionCommand cfg0 ''a1'' creds0 ''/ecs/hyperliquid-agents/a1''
               \<in> set (registered (snd (deployToFargate cfg0 fresh ''a1'' creds0)))"
    by simp
  from bspec [OF image_from_process_configuration this] m
  show ?thesis by (simp add: cfg0_def)
qed

text \<open>
  The claim as the specification words it fails: the deployment of \<open>a1\<close> registers the
  configured image and not \<open>repo/img:latest\<close>, and a deployment that differs in
  everything the caller passes registers the same image.
\<close>

theorem image_parameter_counterexample:
  "map (map cd_image \<circ> containerDefinitions)
       (registered (snd (deployToFargate cfg0 fresh ''a1'' creds0)))
     = [[''123456789012.dkr.ecr.us-east-1.amazonaws.com/hyperliquid-agent:latest'']]
   \<and> map (map cd_image \<circ> containerDefinitions)
       (registered (snd (deployToFargate cfg0 fresh ''a1'' creds0)))
     \<noteq> [[''repo/img:latest'']]
   \<and> map (map cd_image \<circ> containerDefinitions)
       (registered (snd (deployToFargate cfg0 fresh ''a2''
                           \<lparr>apiKey = ''other'', hyperliquidAddress = ''0xdef''\<rparr>)))
     = [[''123456789012.dkr.ecr.us-east-1.amazonaws.com/hyperliquid-agent:latest'']]"
  by (simp add: deploy_defs fresh_def cfg0_def falsy_def registerTaskDefinitionCommand_def)

subsection \<open>Code generation\<close>

text \<open>
  Claim C10. Code generation does not depend on \<open>useTestCode\<close>: whatever the flag,
  \<open>generateAgentCode\<close> sends the same single request to the AI engine and returns the
  same result, and two POST /deploy bodies that differ in the flag only generate alike.
\<close>

theorem codegen_ignores_useTestCode:
  "generateAgentCode cfg post strategyDescription flag
     = generateAgentCode cfg post strategyDescription flag'
   \<and> snd (generateAgentCode cfg post strategyDescription flag)
     = [AxiosPost (AI_ENGINE_URL cfg @ ''/generate'') strategyDescription]
   \<and> deploy_generate cfg post (body\<lparr>body_useTestCode := flag\<rparr>)
     = deploy_generate cfg post (body\<lparr>body_useTestCode := flag'\<rparr>)"
  by (simp add: generateAgentCode_def deploy_generate_def Let_def split: sum.splits)

theorem codegen_ignores_useTestCode_witness:
  "deploy_generate cfg0 (Inr aiAnswer0) (body0\<lparr>body_useTestCode := Some True\<rparr>)
     = deploy_generate cfg0 (Inr aiAnswer0) (body0\<lparr>body_useTestCode := Some False\<rparr>)
   \<and> deploy_generate cfg0 (Inr aiAnswer0) (body0\<lparr>body_useTestCode := Some False\<rparr>)
     = Some (Inr \<lparr>initialization_code = Some ''init()'',
                  trigger_code = Some ''trigger()'',
                  execution_code = Some ''execute()''\<rparr>,
             [AxiosPost ''http://localhost:8000/generate'' ''buy low, sell high''])"
proof -
  have "deploy_generate cfg0 (Inr aiAnswer0) (body0\<lparr>body_useTestCode := Some False\<rparr>)
     = Some (Inr \<lparr>initialization_code = Some ''init()'',
                  trigger_code = Some ''trigger()'',
                  execution_code = Some ''execute()''\<rparr>,
             [AxiosPost ''http://localhost:8000/generate'' ''buy low, sell high''])"
    by (simp add: deploy_generate_def generateAgentCode_def body0_def aiAnswer0_def cfg0_def
          falsy_def)
  with codegen_ignores_useTestCode [of cfg0 "Inr aiAnswer0" "''x''" "Some True" "Some False" body0]
  show ?thesis by simp
qed

subsection \<open>Errors thrown inside the try block reach the catch of the describe call\<close>

text \<open>
  Claim C1, at an input where the code departs from it. The update of an inactive service
  is rejected with \<open>Service was not ACTIVE.\<close>, and the delete with
  \<open>Service not found.\<close>. The error built at line 255 holds both texts, but it is thrown
  inside the \<open>try\<close> of line 214, so the \<open>catch\<close> of line 263 receives it; its text
  contains \<open>not found\<close>, so the service is created once more. That create is rejected,
  and the one error reported holds neither the update's reason nor the delete's.
\<close>

theorem recovery_failure_reasons_lost:
  "deployToFargate cfg0 deleteRejected ''a1'' creds0
   = (Inl (Error ''Failed to create service: Access denied''),
      [CreateLogGroup ''/ecs/hyperliquid-agents/a1'',
       PutRetentionPolicy ''/ecs/hyperliquid-agents/a1'' 30,
       RegisterTaskDefinition
         (registerTaskDefinitionCommand cfg0 ''a1'' creds0 ''/ecs/hyperliquid-agents/a1''),
       DescribeServices \<lparr>ds_cluster = ''hyperliquid-agents'', ds_services = [''agent-svc-a1'']\<rparr>,
       UpdateService (updateServiceCommand cfg0 ''agent-svc-a1'' ''td:1''),
       ConsoleWarn ''Failed to update service (INACTIVE), deleting and recreating: Service was not ACTIVE.'',
       DeleteService \<lparr>dl_cluster = ''hyperliquid-agents'', dl_service = ''agent-svc-a1'', dl_force = True\<rparr>,
       CreateService (createServiceCommand cfg0 ''agent-svc-a1'' ''td:1'')])
   \<and> \<not> str_includes ''Failed to create service: Access denied'' ''Service was not ACTIVE.''
   \<and> \<not> str_includes ''Failed to create service: Access denied'' ''Service not found.''"
  by (simp add: deploy_defs deleteRejected_def inactive_def fresh_def cfg0_def falsy_def
        template_def isNotFound_def Error_def)

text \<open>
  Claim C9, at an input where the code departs from it. The describe call has found the
  service, the update is rejected, the delete resolves, and the create of the recovery is
  rejected with a text that contains \<open>not found\<close>. The \<open>catch\<close> of line 263 receives
  the error of line 255 and creates the service a second time.
\<close>

theorem rejected_recreate_creates_again:
  "deployToFargate cfg0 recreateRejected ''a1'' creds0
   = (Inl (Error ''Failed to create service: Security group g-1 not found.''),
      [CreateLogGroup ''/ecs/hyperliquid-agents/a1'',
       PutRetentionPolicy ''/ecs/hyperliquid-agents/a1'' 30,
       RegisterTaskDefinition
         (registerTaskDefinitionCommand cfg0 ''a1'' creds0 ''/ecs/hyperliquid-agents/a1''),
       DescribeServices \<lparr>ds_cluster = ''hyperliquid-agents'', ds_services = [''agent-svc-a1'']\<rparr>,
       UpdateService (updateServiceCommand cfg0 ''agent-svc-a1'' ''td:1''),
       ConsoleWarn ''Failed to update service (INACTIVE), deleting and recreating: Service was not ACTIVE.'',
       DeleteService \<lparr>dl_cluster = ''hyperliquid-agents'', dl_service = ''agent-svc-a1'', dl_force = True\<rparr>,
       SetTimeout 2000,
       CreateService (createServiceCommand cfg0 ''agent-svc-a1'' ''td:1''),
       CreateService (createServiceCommand cfg0 ''agent-svc-a1'' ''td:1'')])"
  by (simp add: deploy_defs recreateRejected_def inactive_def fresh_def cfg0_def falsy_def
        template_def isNotFound_def Error_def)

end
